theory Spec2Isabelle
  imports Main
begin

section \<open>Data model (types.ts)\<close>

text \<open>
  The zod schemas of \<^verbatim>\<open>types.ts\<close> become datatypes and records. Field names carry a
  short prefix of their record (\<open>t_\<close> for Task, \<open>ps_\<close> for PhaseStatus, ...) because the
  source reuses \<^verbatim>\<open>id\<close>, \<^verbatim>\<open>status\<close>, \<^verbatim>\<open>startedAt\<close>, ... across
  schemas. An ISO-8601 datetime string is represented by its instant in epoch
  milliseconds, a JavaScript number that the code only counts with by an integer, an
  optional or nullable field by an option. Tasks are values: two entries of the task
  array are never the same object.
\<close>

type_synonym timestamp = int

datatype Phase =
  ideation | "specification" | architecture | planning
  | implementation | testing | deployment | complete

datatype TaskStatus = pending | in_progress | completed | blocked | skipped

datatype TaskPriority = critical | high | medium | low

datatype AgentType =
  orchestrator | spec_writer | architect | task_planner | frontend_dev | backend_dev
  | database_expert | api_designer | devops_engineer | test_engineer | code_reviewer
  | security_auditor | performance_analyst | bug_fixer | documentation | refactorer

datatype PhaseStatusTag = ps_pending | ps_in_progress | ps_complete | ps_skipped

datatype AutonomyLevel = al_low | al_medium | al_high | al_full

record PhaseStatus =
  ps_status :: PhaseStatusTag
  ps_startedAt :: "timestamp option"
  ps_completedAt :: "timestamp option"

typedecl TechStack

typedecl Metrics

record Task =
  t_id :: string
  t_title :: string
  t_description :: string
  t_status :: TaskStatus
  t_priority :: TaskPriority
  t_agent :: AgentType
  t_epic :: "string option"
  t_story :: "string option"
  t_dependencies :: "string list"
  t_outputs :: "string list"
  t_acceptanceCriteria :: "string list"
  t_estimatedMinutes :: "int option"
  t_actualMinutes :: "int option"
  t_attempts :: int
  t_maxAttempts :: int
  t_startedAt :: "timestamp option"
  t_completedAt :: "timestamp option"
  t_error :: "string option"

record Blocker =
  b_taskId :: string
  b_reason :: string
  b_since :: timestamp
  b_attempts :: int

record Decision =
  d_id :: string
  d_topic :: string
  d_decision :: string
  d_rationale :: string
  d_alternatives :: "string list option"
  d_decidedAt :: timestamp
  d_decidedBy :: AgentType

record Checkpoint =
  cp_id :: string
  cp_timestamp :: timestamp
  cp_phase :: Phase
  cp_tasksCompleted :: int
  cp_gitCommit :: "string option"
  cp_description :: "string option"

text \<open>The values that the code stores under a key of a history entry's details.\<close>

datatype JsValue =
  JString string | JNumber int | JBoolean bool | JPhase Phase | JUndefined

record HistoryEntry =
  h_timestamp :: timestamp
  h_action :: string
  h_agent :: "AgentType option"
  h_taskId :: "string option"
  h_details :: "(string \<times> JsValue) list option"

record Progress =
  pr_total :: int
  pr_completed :: int
  pr_inProgress :: int
  pr_blocked :: int
  pr_skipped :: int
  pr_percentage :: int

record CurrentTask =
  ct_id :: string
  ct_agent :: AgentType
  ct_startedAt :: timestamp
  ct_attempt :: int

record Project =
  p_id :: string
  p_name :: string
  p_slug :: string
  p_description :: string
  p_created :: timestamp
  p_updated :: timestamp
  p_version :: string

record Config =
  cfg_autonomyLevel :: AutonomyLevel
  cfg_checkpointFrequency :: int
  cfg_autoCommit :: bool
  cfg_maxParallelTasks :: int
  cfg_maxRetries :: int

record ProjectState =
  project :: Project
  phase :: Phase
  phases :: "Phase \<rightharpoonup> PhaseStatus"
  techStack :: "TechStack option"
  tasks :: "Task list"
  currentTasks :: "CurrentTask list"
  progress :: Progress
  blockers :: "Blocker list"
  decisions :: "Decision list"
  checkpoints :: "Checkpoint list"
  history :: "HistoryEntry list"
  metrics :: "Metrics option"
  config :: "Config option"

section \<open>History (state-manager.ts, addHistory)\<close>

text \<open>
  Every \<^verbatim>\<open>new Date()\<close> of the source is an argument of the model: the instant read
  by that call. A function that reads the clock twice takes two instants.
\<close>

definition addHistory ::
  "ProjectState \<Rightarrow> string \<Rightarrow> AgentType option \<Rightarrow> string option
    \<Rightarrow> (string \<times> JsValue) list option \<Rightarrow> timestamp \<Rightarrow> ProjectState" where
  "addHistory state action agent taskId details now =
     state\<lparr>history := history state @
       [\<lparr>h_timestamp = now, h_action = action, h_agent = agent,
         h_taskId = taskId, h_details = details\<rparr>]\<rparr>"

section \<open>Phase management (transitionPhase)\<close>

definition transitionPhase ::
  "ProjectState \<Rightarrow> Phase \<Rightarrow> timestamp \<Rightarrow> timestamp \<Rightarrow> ProjectState" where
  "transitionPhase state newPhase now nowH =
     (let currentPhase = phase state;
          state1 = (case phases state currentPhase of
                      None \<Rightarrow> state
                    | Some ps \<Rightarrow> state\<lparr>phases := (phases state)(currentPhase \<mapsto>
                        ps\<lparr>ps_status := ps_complete, ps_completedAt := Some now\<rparr>)\<rparr>);
          state2 = state1\<lparr>phase := newPhase\<rparr>;
          state3 = (case phases state2 newPhase of
                      None \<Rightarrow> state2
                    | Some ps \<Rightarrow> state2\<lparr>phases := (phases state2)(newPhase \<mapsto>
                        ps\<lparr>ps_status := ps_in_progress, ps_startedAt := Some now\<rparr>)\<rparr>)
      in addHistory state3 ''phase_transition'' None None
           (Some [(''from'', JPhase currentPhase), (''to'', JPhase newPhase)]) nowH)"

section \<open>Scheduling (getNextTask, getParallelizableTasks)\<close>



fun priorityOrder :: "TaskPriority \<Rightarrow> int" where
  "priorityOrder critical = 0"
| "priorityOrder high = 1"
| "priorityOrder medium = 2"
| "priorityOrder low = 3"

text \<open>
  \<^verbatim>\<open>Array.prototype.sort\<close> with the comparator
  \<^verbatim>\<open>priorityOrder[a.priority] - priorityOrder[b.priority]\<close> is a stable sort by the
  rank (the comparator is a consistent ordering, and the language requires stability):
  \<^const>\<open>sort_key\<close>, an insertion sort that keeps equal keys in their order.
\<close>

definition sortByPriority :: "Task list \<Rightarrow> Task list" where
  "sortByPriority ts = sort_key (\<lambda>t. priorityOrder (t_priority t)) ts"



definition hasFileConflict :: "Task list \<Rightarrow> Task \<Rightarrow> bool" where
  "hasFileConflict selectedTasks newTask =
     list_ex (\<lambda>task. list_ex (\<lambda>output. output \<in> set (t_outputs newTask)) (t_outputs task))
       selectedTasks"



text \<open>The selection loop over the groups, with its \<^verbatim>\<open>break\<close>.\<close>

fun selectLoop :: "int \<Rightarrow> (AgentType \<times> Task list) list \<Rightarrow> Task list \<Rightarrow> Task list" where
  "selectLoop maxTasks [] selected = selected"
| "selectLoop maxTasks ((a, ts) # rest) selected =
     (if int (length selected) \<ge> maxTasks then selected
      else (case find (\<lambda>t. \<not> hasFileConflict selected t) (sortByPriority ts) of
              None \<Rightarrow> selectLoop maxTasks rest selected
            | Some task \<Rightarrow> selectLoop maxTasks rest (selected @ [task])))"





section \<open>Progress (updateProgress)\<close>

text \<open>
  \<^verbatim>\<open>Math.round((completed / total) * 100)\<close> is computed in binary floating point and
  need not be the exactly rounded quotient; the function \<open>roundPct\<close> that computes it
  from the two counts is an argument of the model.
\<close>

definition countStatus :: "TaskStatus \<Rightarrow> Task list \<Rightarrow> nat" where
  "countStatus st ts = length (filter (\<lambda>t. t_status t = st) ts)"

definition updateProgress :: "(nat \<Rightarrow> nat \<Rightarrow> int) \<Rightarrow> ProjectState \<Rightarrow> ProjectState" where
  "updateProgress roundPct state =
     (let total = length (tasks state);
          completedN = countStatus completed (tasks state);
          inProgressN = countStatus in_progress (tasks state);
          blockedN = countStatus blocked (tasks state);
          skippedN = countStatus skipped (tasks state)
      in state\<lparr>progress :=
           \<lparr>pr_total = int total, pr_completed = int completedN,
             pr_inProgress = int inProgressN, pr_blocked = int blockedN,
             pr_skipped = int skippedN,
             pr_percentage = (if total > 0 then roundPct completedN total else 0)\<rparr>\<rparr>)"

section \<open>Task lifecycle (startTask, completeTask, failTask, addTasks)\<close>

text \<open>
  \<^verbatim>\<open>state.tasks.find\<close> returns the first task with the id, and the assignments to
  its fields change that entry of the array in place.
\<close>

fun replaceFirst :: "('a \<Rightarrow> bool) \<Rightarrow> 'a \<Rightarrow> 'a list \<Rightarrow> 'a list" where
  "replaceFirst P y [] = []"
| "replaceFirst P y (x # xs) = (if P x then y # xs else x # replaceFirst P y xs)"

definition startTask ::
  "(nat \<Rightarrow> nat \<Rightarrow> int) \<Rightarrow> ProjectState \<Rightarrow> string \<Rightarrow> timestamp \<Rightarrow> timestamp
    \<Rightarrow> Task option \<times> ProjectState" where
  "startTask roundPct state taskId now nowH =
     (case find (\<lambda>t. t_id t = taskId) (tasks state) of
        None \<Rightarrow> (None, state)
      | Some task0 \<Rightarrow>
          (let task = task0\<lparr>t_status := in_progress, t_startedAt := Some now,
                             t_attempts := t_attempts task0 + 1\<rparr>;
               state1 = state\<lparr>tasks := replaceFirst (\<lambda>t. t_id t = taskId) task (tasks state)\<rparr>;
               state2 = state1\<lparr>currentTasks := currentTasks state1 @
                          [\<lparr>ct_id = taskId, ct_agent = t_agent task, ct_startedAt = now,
                            ct_attempt = t_attempts task\<rparr>]\<rparr>;
               state3 = updateProgress roundPct state2
           in (Some task,
               addHistory state3 ''task_started'' (Some (t_agent task)) (Some taskId)
                 (Some [(''attempt'', JNumber (t_attempts task))]) nowH)))"

text \<open>
  \<^verbatim>\<open>Math.round((end - start) / 60000)\<close> on two instants in milliseconds: the quotient
  rounded to the nearest integer, a half towards plus infinity.
\<close>

definition roundMinutes :: "int \<Rightarrow> int" where
  "roundMinutes ms = (ms + 30000) div 60000"

definition completeTask ::
  "(nat \<Rightarrow> nat \<Rightarrow> int) \<Rightarrow> ProjectState \<Rightarrow> string \<Rightarrow> timestamp \<Rightarrow> timestamp
    \<Rightarrow> Task option \<times> ProjectState" where
  "completeTask roundPct state taskId now nowH =
     (case find (\<lambda>t. t_id t = taskId) (tasks state) of
        None \<Rightarrow> (None, state)
      | Some task0 \<Rightarrow>
          (let task1 = task0\<lparr>t_status := completed, t_completedAt := Some now,
                              t_error := None\<rparr>;
               task = (case t_startedAt task1 of
                         None \<Rightarrow> task1
                       | Some start \<Rightarrow> task1\<lparr>t_actualMinutes := Some (roundMinutes (now - start))\<rparr>);
               state1 = state\<lparr>tasks := replaceFirst (\<lambda>t. t_id t = taskId) task (tasks state)\<rparr>;
               state2 = state1\<lparr>currentTasks :=
                          filter (\<lambda>ct. ct_id ct \<noteq> taskId) (currentTasks state1)\<rparr>;
               state3 = updateProgress roundPct state2
           in (Some task,
               addHistory state3 ''task_completed'' (Some (t_agent task)) (Some taskId)
                 (Some [(''actualMinutes'',
                         (case t_actualMinutes task of None \<Rightarrow> JUndefined | Some m \<Rightarrow> JNumber m))])
                 nowH)))"

definition failTask ::
  "(nat \<Rightarrow> nat \<Rightarrow> int) \<Rightarrow> ProjectState \<Rightarrow> string \<Rightarrow> string \<Rightarrow> timestamp \<Rightarrow> timestamp
    \<Rightarrow> Task option \<times> ProjectState" where
  "failTask roundPct state taskId err nowB nowH =
     (case find (\<lambda>t. t_id t = taskId) (tasks state) of
        None \<Rightarrow> (None, state)
      | Some task0 \<Rightarrow>
          (let task1 = task0\<lparr>t_error := Some err\<rparr>;
               blocking = (t_attempts task1 \<ge> t_maxAttempts task1);
               task = (if blocking then task1\<lparr>t_status := blocked\<rparr>
                       else task1\<lparr>t_status := pending\<rparr>);
               state1 = state\<lparr>tasks := replaceFirst (\<lambda>t. t_id t = taskId) task (tasks state)\<rparr>;
               state2 = (if blocking
                         then state1\<lparr>blockers := blockers state1 @
                                [\<lparr>b_taskId = taskId, b_reason = err, b_since = nowB,
                                  b_attempts = t_attempts task\<rparr>]\<rparr>
                         else state1);
               state3 = state2\<lparr>currentTasks :=
                          filter (\<lambda>ct. ct_id ct \<noteq> taskId) (currentTasks state2)\<rparr>;
               state4 = updateProgress roundPct state3
           in (Some task,
               addHistory state4 ''task_failed'' (Some (t_agent task)) (Some taskId)
                 (Some [(''error'', JString err), (''attempt'', JNumber (t_attempts task)),
                        (''willRetry'', JBoolean (t_status task = pending))])
                 nowH)))"

definition addTasks :: "(nat \<Rightarrow> nat \<Rightarrow> int) \<Rightarrow> ProjectState \<Rightarrow> Task list \<Rightarrow> ProjectState" where
  "addTasks roundPct state newTasks =
     updateProgress roundPct (state\<lparr>tasks := tasks state @ newTasks\<rparr>)"

text \<open>A driver's call of one lifecycle operation, and a sequence of such calls.\<close>

datatype Operation =
  StartTask string timestamp timestamp
  | CompleteTask string timestamp timestamp
  | FailTask string string timestamp timestamp
  | AddTasks "Task list"

fun applyOperation :: "(nat \<Rightarrow> nat \<Rightarrow> int) \<Rightarrow> ProjectState \<Rightarrow> Operation \<Rightarrow> ProjectState" where
  "applyOperation r state (StartTask taskId now nowH) = snd (startTask r state taskId now nowH)"
| "applyOperation r state (CompleteTask taskId now nowH) = snd (completeTask r state taskId now nowH)"
| "applyOperation r state (FailTask taskId err nowB nowH) = snd (failTask r state taskId err nowB nowH)"
| "applyOperation r state (AddTasks ts) = addTasks r state ts"

definition runOperations :: "(nat \<Rightarrow> nat \<Rightarrow> int) \<Rightarrow> ProjectState \<Rightarrow> Operation list \<Rightarrow> ProjectState" where
  "runOperations r state ops = foldl (applyOperation r) state ops"

section \<open>Completion and checkpoint policy (isComplete, shouldCheckpoint)\<close>

definition isComplete :: "ProjectState \<Rightarrow> bool" where
  "isComplete state =
     (length (tasks state) > 0 \<and>
      list_all (\<lambda>t. t_status t = completed \<or> t_status t = skipped) (tasks state))"

text \<open>
  \<^verbatim>\<open>state.config?.checkpointFrequency || 5\<close>: the right operand is taken when the
  left one is undefined (no config) or falsy (the number 0).
\<close>

definition checkpointFreq :: "ProjectState \<Rightarrow> int" where
  "checkpointFreq state =
     (case config state of
        None \<Rightarrow> 5
      | Some c \<Rightarrow> if cfg_checkpointFrequency c = 0 then 5 else cfg_checkpointFrequency c)"

definition shouldCheckpoint :: "ProjectState \<Rightarrow> bool" where
  "shouldCheckpoint state =
     (let freq = checkpointFreq state;
          tasksSinceCheckpoint =
            (if checkpoints state = [] then pr_completed (progress state)
             else pr_completed (progress state) - cp_tasksCompleted (last (checkpoints state)))
      in tasksSinceCheckpoint \<ge> freq)"

section \<open>Persistence and checkpoints (save, createCheckpoint, restoreCheckpoint)\<close>

text \<open>
  The file system holds the project document and one snapshot per checkpoint id (the file
  \<^verbatim>\<open>CP-NNN.json\<close> of the checkpoints directory). A document is represented by the
  state it was written from, and reading it back (\<^verbatim>\<open>JSON.parse\<close> of
  \<^verbatim>\<open>JSON.stringify\<close>) by \<open>jsonRoundTrip\<close>: serialisation omits a property whose
  value is undefined, which in this data model only touches the details of a history
  entry. Creating directories and writing files do not fail.

  \<^verbatim>\<open>ProjectStateSchema.parse\<close> throws on data that is not of the schema. The types of
  the model already are the schema, but for the format of the project id; the library's
  check of that format is the argument \<open>isUuid\<close>.
\<close>

datatype error = CheckpointNotFound string | ZodError

record FileSystem =
  stateFile :: "ProjectState option"
  checkpointFiles :: "string \<rightharpoonup> ProjectState"

definition dropUndefined :: "(string \<times> JsValue) list \<Rightarrow> (string \<times> JsValue) list" where
  "dropUndefined kvs = filter (\<lambda>kv. snd kv \<noteq> JUndefined) kvs"

definition jsonRoundTrip :: "ProjectState \<Rightarrow> ProjectState" where
  "jsonRoundTrip state =
     state\<lparr>history :=
       map (\<lambda>h. h\<lparr>h_details := map_option dropUndefined (h_details h)\<rparr>) (history state)\<rparr>"

definition ProjectStateSchema_parse :: "(string \<Rightarrow> bool) \<Rightarrow> ProjectState \<Rightarrow> error + ProjectState" where
  "ProjectStateSchema_parse isUuid data =
     (if isUuid (p_id (project data)) then Inr data else Inl ZodError)"

definition save ::
  "(string \<Rightarrow> bool) \<Rightarrow> FileSystem \<Rightarrow> ProjectState \<Rightarrow> timestamp
    \<Rightarrow> error + (ProjectState \<times> FileSystem)" where
  "save isUuid fs state now =
     (let state1 = state\<lparr>project := (project state)\<lparr>p_updated := now\<rparr>\<rparr>
      in case ProjectStateSchema_parse isUuid state1 of
           Inl e \<Rightarrow> Inl e
         | Inr validated \<Rightarrow> Inr (state1, fs\<lparr>stateFile := Some validated\<rparr>))"

text \<open>\<^verbatim>\<open>String(n).padStart(3, '0')\<close>: the decimal digits of n, padded on the left.\<close>

definition digitChar :: "nat \<Rightarrow> char" where
  "digitChar d = ''0123456789'' ! d"

fun decimalString :: "nat \<Rightarrow> string" where
  "decimalString n =
     (if n < 10 then [digitChar n] else decimalString (n div 10) @ [digitChar (n mod 10)])"

declare decimalString.simps [simp del]

definition padStart :: "nat \<Rightarrow> char \<Rightarrow> string \<Rightarrow> string" where
  "padStart targetLength padChar str = replicate (targetLength - length str) padChar @ str"

definition createCheckpoint ::
  "FileSystem \<Rightarrow> ProjectState \<Rightarrow> string option \<Rightarrow> string option \<Rightarrow> timestamp \<Rightarrow> timestamp
    \<Rightarrow> Checkpoint \<times> ProjectState \<times> FileSystem" where
  "createCheckpoint fs state gitCommit description now nowH =
     (let checkpoint =
            \<lparr>cp_id = ''CP-'' @ padStart 3 (CHR ''0'') (decimalString (length (checkpoints state) + 1)),
             cp_timestamp = now, cp_phase = phase state,
             cp_tasksCompleted = pr_completed (progress state),
             cp_gitCommit = gitCommit, cp_description = description\<rparr>;
          state1 = state\<lparr>checkpoints := checkpoints state @ [checkpoint]\<rparr>;
          fs1 = fs\<lparr>checkpointFiles := (checkpointFiles fs)(cp_id checkpoint \<mapsto> state1)\<rparr>;
          state2 = addHistory state1 ''checkpoint_created'' None None
                     (Some [(''checkpointId'', JString (cp_id checkpoint)),
                            (''tasksCompleted'', JNumber (cp_tasksCompleted checkpoint))]) nowH
      in (checkpoint, state2, fs1))"

definition restoreCheckpoint ::
  "(string \<Rightarrow> bool) \<Rightarrow> FileSystem \<Rightarrow> string \<Rightarrow> timestamp \<Rightarrow> timestamp
    \<Rightarrow> error + (ProjectState \<times> FileSystem)" where
  "restoreCheckpoint isUuid fs checkpointId nowH nowS =
     (case checkpointFiles fs checkpointId of
        None \<Rightarrow> Inl (CheckpointNotFound checkpointId)
      | Some file \<Rightarrow>
          (case ProjectStateSchema_parse isUuid (jsonRoundTrip file) of
             Inl e \<Rightarrow> Inl e
           | Inr state \<Rightarrow>
               save isUuid fs
                 (addHistory state ''checkpoint_restored'' None None
                    (Some [(''checkpointId'', JString checkpointId)]) nowH)
                 nowS))"

definition emptyFileSystem :: FileSystem where
  "emptyFileSystem = \<lparr>stateFile = None, checkpointFiles = Map.empty\<rparr>"

definition uuidLength :: "string \<Rightarrow> bool" where
  "uuidLength u = (length u = 36)"

section \<open>Example states\<close>

text \<open>
  A task as \<^verbatim>\<open>TaskSchema\<close> parses one that gives only the required fields and the
  dependency and output arrays (attempts 0, maxAttempts 3, no timestamps, no error), and
  the state that \<^verbatim>\<open>initialize\<close> builds before it saves it.
\<close>

definition newTask ::
  "string \<Rightarrow> TaskStatus \<Rightarrow> TaskPriority \<Rightarrow> AgentType \<Rightarrow> string list \<Rightarrow> string list \<Rightarrow> Task" where
  "newTask taskId st prio ag deps outs =
     \<lparr>t_id = taskId, t_title = taskId, t_description = [], t_status = st, t_priority = prio,
      t_agent = ag, t_epic = None, t_story = None, t_dependencies = deps, t_outputs = outs,
      t_acceptanceCriteria = [], t_estimatedMinutes = None, t_actualMinutes = None,
      t_attempts = 0, t_maxAttempts = 3, t_startedAt = None, t_completedAt = None,
      t_error = None\<rparr>"

definition initialState :: "string \<Rightarrow> string \<Rightarrow> string \<Rightarrow> string \<Rightarrow> timestamp \<Rightarrow> ProjectState" where
  "initialState uuid name description projectSlug now =
     \<lparr>project = \<lparr>p_id = uuid, p_name = name, p_slug = projectSlug,
                  p_description = description, p_created = now, p_updated = now,
                  p_version = ''0.1.0''\<rparr>,
      phase = ideation,
      phases = (\<lambda>p. Some \<lparr>ps_status = (if p = ideation then ps_in_progress else ps_pending),
                            ps_startedAt = (if p = ideation then Some now else None),
                            ps_completedAt = None\<rparr>),
      techStack = None,
      tasks = [],
      currentTasks = [],
      progress = \<lparr>pr_total = 0, pr_completed = 0, pr_inProgress = 0, pr_blocked = 0,
                   pr_skipped = 0, pr_percentage = 0\<rparr>,
      blockers = [],
      decisions = [],
      checkpoints = [],
      history = [\<lparr>h_timestamp = now, h_action = ''project_initialized'', h_agent = None,
                  h_taskId = None,
                  h_details = Some [(''name'', JString name), (''description'', JString description)]\<rparr>],
      metrics = None,
      config = Some \<lparr>cfg_autonomyLevel = al_high, cfg_checkpointFrequency = 5,
                      cfg_autoCommit = True, cfg_maxParallelTasks = 3, cfg_maxRetries = 3\<rparr>\<rparr>"

definition demoState :: ProjectState where
  "demoState = initialState ''00000000-0000-4000-8000-000000000000'' ''demo'' ''a demo'' ''demo'' 0"

definition zeroFrequencyState :: ProjectState where
  "zeroFrequencyState =
     demoState\<lparr>config := Some \<lparr>cfg_autonomyLevel = al_high, cfg_checkpointFrequency = 0,
                                  cfg_autoCommit = True, cfg_maxParallelTasks = 3,
                                  cfg_maxRetries = 3\<rparr>\<rparr>"

definition finishedState :: ProjectState where
  "finishedState =
     demoState\<lparr>tasks := [newTask ''A'' completed high architect [] [],
                          newTask ''B'' skipped low frontend_dev [''A''] []]\<rparr>"


text \<open>
  An instance of the rounding function for the example states (the exactly rounded
  percentage), and a state with one pending task.
\<close>

definition exactPct :: "nat \<Rightarrow> nat \<Rightarrow> int" where
  "exactPct c t = (200 * int c + int t) div (2 * int t)"

definition oneTaskState :: ProjectState where
  "oneTaskState =
     addTasks exactPct demoState [newTask ''A'' pending high backend_dev [] [''src/app.ts'']]"


section \<open>Auxiliary facts\<close>

lemma length_replaceFirst: "length (replaceFirst P y xs) = length xs"
  by (induction xs) auto

lemma find_replaceFirst:
  "find P xs = Some x \<Longrightarrow> P y \<Longrightarrow> find P (replaceFirst P y xs) = Some y"
  by (induction xs) (auto split: if_splits)

lemma replaceFirst_find_None: "find P xs = None \<Longrightarrow> replaceFirst P y xs = xs"
  by (induction xs) (auto split: if_splits)



lemma tasks_addHistory: "tasks (addHistory s a ag i d n) = tasks s"
  and progress_addHistory: "progress (addHistory s a ag i d n) = progress s"
  and blockers_addHistory: "blockers (addHistory s a ag i d n) = blockers s"
  and currentTasks_addHistory: "currentTasks (addHistory s a ag i d n) = currentTasks s"
  by (simp_all add: addHistory_def)







lemma find_Some_holds: "find P xs = Some x \<Longrightarrow> P x"
  by (induction xs) (auto split: if_splits)

lemma startTask_hit:
  assumes "find (\<lambda>t. t_id t = taskId) (tasks s) = Some t"
  shows "fst (startTask r s taskId now nowH)
           = Some (t\<lparr>t_status := in_progress, t_startedAt := Some now,
                     t_attempts := t_attempts t + 1\<rparr>)"
    and "tasks (snd (startTask r s taskId now nowH))
           = replaceFirst (\<lambda>t. t_id t = taskId)
               (t\<lparr>t_status := in_progress, t_startedAt := Some now,
                   t_attempts := t_attempts t + 1\<rparr>) (tasks s)"
    and "blockers (snd (startTask r s taskId now nowH)) = blockers s"
  using assms
  by (simp_all add: startTask_def Let_def addHistory_def updateProgress_def)

lemma startTask_find:
  assumes "find (\<lambda>t. t_id t = taskId) (tasks s) = Some t"
  shows "find (\<lambda>t. t_id t = taskId) (tasks (snd (startTask r s taskId now nowH)))
           = Some (t\<lparr>t_status := in_progress, t_startedAt := Some now,
                     t_attempts := t_attempts t + 1\<rparr>)"
proof -
  have "t_id t = taskId" using assms by (rule find_Some_holds)
  then show ?thesis
    unfolding startTask_hit(2) [OF assms]
    using assms by (intro find_replaceFirst) simp_all
qed

lemma failTask_hit:
  assumes "find (\<lambda>t. t_id t = taskId) (tasks s) = Some t"
  shows "fst (failTask r s taskId err nowB nowH)
           = Some (t\<lparr>t_error := Some err,
                     t_status := (if t_attempts t \<ge> t_maxAttempts t then blocked else pending)\<rparr>)"
    and "tasks (snd (failTask r s taskId err nowB nowH))
           = replaceFirst (\<lambda>t. t_id t = taskId)
               (t\<lparr>t_error := Some err,
                   t_status := (if t_attempts t \<ge> t_maxAttempts t then blocked else pending)\<rparr>)
               (tasks s)"
    and "blockers (snd (failTask r s taskId err nowB nowH))
           = (if t_attempts t \<ge> t_maxAttempts t
              then blockers s @ [\<lparr>b_taskId = taskId, b_reason = err, b_since = nowB,
                                   b_attempts = t_attempts t\<rparr>]
              else blockers s)"
    and "currentTasks (snd (failTask r s taskId err nowB nowH))
           = filter (\<lambda>ct. ct_id ct \<noteq> taskId) (currentTasks s)"
    and "history (snd (failTask r s taskId err nowB nowH))
           = history s @
               [\<lparr>h_timestamp = nowH, h_action = ''task_failed'', h_agent = Some (t_agent t),
                 h_taskId = Some taskId,
                 h_details = Some [(''error'', JString err),
                                   (''attempt'', JNumber (t_attempts t)),
                                   (''willRetry'', JBoolean (t_attempts t < t_maxAttempts t))]\<rparr>]"
  using assms
  by (simp_all add: failTask_def Let_def addHistory_def updateProgress_def)

lemma failTask_find:
  assumes "find (\<lambda>t. t_id t = taskId) (tasks s) = Some t"
  shows "find (\<lambda>t. t_id t = taskId) (tasks (snd (failTask r s taskId err nowB nowH)))
           = Some (t\<lparr>t_error := Some err,
                     t_status := (if t_attempts t \<ge> t_maxAttempts t then blocked else pending)\<rparr>)"
proof -
  have "t_id t = taskId" using assms by (rule find_Some_holds)
  then show ?thesis
    unfolding failTask_hit(2) [OF assms]
    using assms by (intro find_replaceFirst) simp_all
qed

lemma cycle_step:
  assumes "find (\<lambda>t. t_id t = taskId) (tasks s) = Some t"
  shows "\<exists>t'. find (\<lambda>t. t_id t = taskId)
                (tasks (runOperations r s [StartTask taskId a b, FailTask taskId e c d])) = Some t'
          \<and> t_attempts t' = t_attempts t + 1
          \<and> t_maxAttempts t' = t_maxAttempts t
          \<and> t_status t' = (if t_attempts t + 1 \<ge> t_maxAttempts t then blocked else pending)
          \<and> blockers (runOperations r s [StartTask taskId a b, FailTask taskId e c d])
              = (if t_attempts t + 1 \<ge> t_maxAttempts t
                 then blockers s @ [\<lparr>b_taskId = taskId, b_reason = e, b_since = c,
                                      b_attempts = t_attempts t + 1\<rparr>]
                 else blockers s)"
proof -
  have started: "find (\<lambda>t. t_id t = taskId) (tasks (snd (startTask r s taskId a b)))
      = Some (t\<lparr>t_status := in_progress, t_startedAt := Some a,
                t_attempts := t_attempts t + 1\<rparr>)"
    by (rule startTask_find [OF assms])
  have run: "runOperations r s [StartTask taskId a b, FailTask taskId e c d]
      = snd (failTask r (snd (startTask r s taskId a b)) taskId e c d)"
    by (simp add: runOperations_def)
  show ?thesis
    unfolding run failTask_find [OF started] failTask_hit(3) [OF started]
    by (simp add: startTask_hit(3) [OF assms])
qed

lemma oneTaskState_find:
  "find (\<lambda>t. t_id t = ''A'') (tasks oneTaskState)
     = Some (newTask ''A'' pending high backend_dev [] [''src/app.ts''])"
  by (simp add: oneTaskState_def addTasks_def updateProgress_def Let_def demoState_def
      initialState_def newTask_def)

lemma oneTaskState_blockers: "blockers oneTaskState = []"
  by (simp add: oneTaskState_def addTasks_def updateProgress_def Let_def demoState_def
      initialState_def)














lemma selectLoop_prefix: "\<exists>ext. selectLoop n gs sel = sel @ ext"
proof (induction n gs sel rule: selectLoop.induct)
  case (1 n sel)
  show ?case by simp
next
  case (2 n a ts rest sel)
  show ?case
  proof (cases "int (length sel) \<ge> n")
    case True
    then show ?thesis by simp
  next
    case False
    show ?thesis
    proof (cases "find (\<lambda>t. \<not> hasFileConflict sel t) (sortByPriority ts)")
      case None
      with False 2(1) show ?thesis by simp
    next
      case (Some t)
      from 2(2) [OF _ Some] False obtain ext where "selectLoop n rest (sel @ [t]) = (sel @ [t]) @ ext"
        by auto
      with False Some show ?thesis by simp
    qed
  qed
qed
















lemma oneTaskState_project_id:
  "p_id (project oneTaskState) = ''00000000-0000-4000-8000-000000000000''"
  by (simp add: oneTaskState_def addTasks_def updateProgress_def Let_def
      demoState_def initialState_def)

lemma oneTaskState_uuid: "uuidLength (p_id (project oneTaskState))"
  unfolding oneTaskState_project_id uuidLength_def by simp

lemma oneTaskState_cp:
  "cp_id (fst (createCheckpoint emptyFileSystem oneTaskState None None 5 6)) = ''CP-001''"
  by (simp add: createCheckpoint_def Let_def padStart_def decimalString.simps digitChar_def
      eval_nat_numeral
      oneTaskState_def addTasks_def updateProgress_def demoState_def initialState_def)




section \<open>Completion\<close>

text \<open>
  C10. \<^verbatim>\<open>isComplete\<close> holds exactly when the task collection is not empty and every
  task is completed or skipped; a state without tasks is never complete.
\<close>

theorem isComplete_iff:
  "(isComplete s \<longleftrightarrow>
      tasks s \<noteq> [] \<and> (\<forall>t \<in> set (tasks s). t_status t = completed \<or> t_status t = skipped))
   \<and> (tasks s = [] \<longrightarrow> \<not> isComplete s)"
  by (auto simp: isComplete_def list_all_iff)

theorem isComplete_iff_witness:
  "isComplete finishedState \<and> tasks finishedState \<noteq> []
   \<and> tasks demoState = [] \<and> \<not> isComplete demoState"
  using isComplete_iff [of finishedState] isComplete_iff [of demoState]
  by (simp add: finishedState_def demoState_def initialState_def newTask_def)

section \<open>Checkpoint policy\<close>

text \<open>
  C8, as stated: \<^verbatim>\<open>shouldCheckpoint\<close> compares the tasks completed since the last
  checkpoint with the configured frequency. It fails where the configured frequency is 0:
  no task is completed, 0 is at least 0, and the code answers false.
\<close>

theorem shouldCheckpoint_zero_frequency_counterexample:
  "\<not> (shouldCheckpoint zeroFrequencyState \<longleftrightarrow>
        pr_completed (progress zeroFrequencyState)
          - (if checkpoints zeroFrequencyState = [] then 0
             else cp_tasksCompleted (last (checkpoints zeroFrequencyState)))
        \<ge> (case config zeroFrequencyState of None \<Rightarrow> 5 | Some c \<Rightarrow> cfg_checkpointFrequency c))"
  by (simp add: shouldCheckpoint_def checkpointFreq_def zeroFrequencyState_def demoState_def
      initialState_def)

text \<open>
  C8, amended: the frequency compared with is the configured one when a config is present
  and its frequency is not 0, and 5 otherwise (no config, or a configured frequency of 0).
\<close>

theorem shouldCheckpoint_iff:
  "shouldCheckpoint s \<longleftrightarrow>
     pr_completed (progress s)
       - (if checkpoints s = [] then 0 else cp_tasksCompleted (last (checkpoints s)))
     \<ge> (case config s of
           None \<Rightarrow> 5
         | Some c \<Rightarrow> if cfg_checkpointFrequency c = 0 then 5 else cfg_checkpointFrequency c)"
  by (simp add: shouldCheckpoint_def checkpointFreq_def Let_def)

theorem shouldCheckpoint_iff_witness:
  "\<not> shouldCheckpoint zeroFrequencyState
   \<and> shouldCheckpoint (zeroFrequencyState\<lparr>progress := (progress zeroFrequencyState)\<lparr>pr_completed := 5\<rparr>\<rparr>)
   \<and> shouldCheckpoint (demoState\<lparr>config := None, progress := (progress demoState)\<lparr>pr_completed := 5\<rparr>\<rparr>)"
  using shouldCheckpoint_iff [of zeroFrequencyState]
    shouldCheckpoint_iff [of "zeroFrequencyState\<lparr>progress := (progress zeroFrequencyState)\<lparr>pr_completed := 5\<rparr>\<rparr>"]
    shouldCheckpoint_iff [of "demoState\<lparr>config := None, progress := (progress demoState)\<lparr>pr_completed := 5\<rparr>\<rparr>"]
  by (simp add: zeroFrequencyState_def demoState_def initialState_def)

section \<open>Lookup misses\<close>

text \<open>
  C9. For an id that no task of the collection has, \<^verbatim>\<open>startTask\<close>,
  \<^verbatim>\<open>completeTask\<close> and \<^verbatim>\<open>failTask\<close> return no task (null) and the state they
  were given, unchanged in every component.
\<close>

theorem lifecycle_lookup_miss:
  assumes "\<forall>t \<in> set (tasks s). t_id t \<noteq> taskId"
  shows "startTask r s taskId now nowH = (None, s)
       \<and> completeTask r s taskId now nowH = (None, s)
       \<and> failTask r s taskId err nowB nowH = (None, s)"
proof -
  have "find (\<lambda>t. t_id t = taskId) (tasks s) = None"
    using assms by (simp add: find_None_iff)
  then show ?thesis
    by (simp add: startTask_def completeTask_def failTask_def)
qed

theorem lifecycle_lookup_miss_witness:
  "''C'' \<notin> t_id ` set (tasks finishedState)
   \<and> startTask (\<lambda>c t. 0) finishedState ''C'' 1 2 = (None, finishedState)
   \<and> completeTask (\<lambda>c t. 0) finishedState ''C'' 1 2 = (None, finishedState)
   \<and> failTask (\<lambda>c t. 0) finishedState ''C'' ''boom'' 1 2 = (None, finishedState)"
proof -
  have h: "\<forall>t \<in> set (tasks finishedState). t_id t \<noteq> ''C''"
    by (simp add: finishedState_def newTask_def)
  show ?thesis
    using h lifecycle_lookup_miss [OF h] by auto
qed

section \<open>Phase transitions\<close>

text \<open>
  C7, as stated: after \<^verbatim>\<open>transitionPhase\<close> the phase that was current is marked
  complete. It fails where the target is the current phase: the phase is marked complete
  and then in_progress, and ends in_progress.
\<close>

theorem transitionPhase_same_phase_counterexample:
  "map_option ps_status (phases (transitionPhase demoState ideation 10 11) (phase demoState))
     \<noteq> Some ps_complete"
  by (simp add: transitionPhase_def addHistory_def demoState_def initialState_def Let_def)

text \<open>
  C7, amended. In a state whose phases map has a record for the current and for the target
  phase, \<^verbatim>\<open>transitionPhase\<close> to any target (backward and skipping targets too, no
  order is checked) sets the phase to the target and appends one phase_transition entry
  with the old phase as from and the target as to. When the target is not the current
  phase, the old phase ends complete with the completion time and the target in_progress
  with the start time; when the target is the current phase, that phase ends in_progress
  with both times set. No other phase record, and no task, changes.
\<close>

theorem transitionPhase_effect:
  assumes "phases s (phase s) = Some cur" and "phases s target = Some tgt"
  shows "phase (transitionPhase s target now nowH) = target
    \<and> history (transitionPhase s target now nowH) = history s @
         [\<lparr>h_timestamp = nowH, h_action = ''phase_transition'', h_agent = None,
           h_taskId = None,
           h_details = Some [(''from'', JPhase (phase s)), (''to'', JPhase target)]\<rparr>]
    \<and> (target \<noteq> phase s \<longrightarrow>
          phases (transitionPhase s target now nowH) (phase s)
            = Some (cur\<lparr>ps_status := ps_complete, ps_completedAt := Some now\<rparr>)
        \<and> phases (transitionPhase s target now nowH) target
            = Some (tgt\<lparr>ps_status := ps_in_progress, ps_startedAt := Some now\<rparr>))
    \<and> (target = phase s \<longrightarrow>
          phases (transitionPhase s target now nowH) target
            = Some (cur\<lparr>ps_status := ps_in_progress, ps_startedAt := Some now,
                         ps_completedAt := Some now\<rparr>))
    \<and> (\<forall>p. p \<noteq> phase s \<and> p \<noteq> target \<longrightarrow>
          phases (transitionPhase s target now nowH) p = phases s p)
    \<and> tasks (transitionPhase s target now nowH) = tasks s
    \<and> progress (transitionPhase s target now nowH) = progress s
    \<and> checkpoints (transitionPhase s target now nowH) = checkpoints s"
  using assms
  by (auto simp: transitionPhase_def addHistory_def Let_def)

theorem transitionPhase_effect_witness:
  "phases demoState (phase demoState)
     = Some \<lparr>ps_status = ps_in_progress, ps_startedAt = Some 0, ps_completedAt = None\<rparr>
   \<and> phases demoState planning
     = Some \<lparr>ps_status = ps_pending, ps_startedAt = None, ps_completedAt = None\<rparr>
   \<and> phase (transitionPhase demoState planning 10 11) = planning
   \<and> phases (transitionPhase demoState planning 10 11) ideation
     = Some \<lparr>ps_status = ps_complete, ps_startedAt = Some 0, ps_completedAt = Some 10\<rparr>
   \<and> phases (transitionPhase demoState planning 10 11) planning
     = Some \<lparr>ps_status = ps_in_progress, ps_startedAt = Some 10, ps_completedAt = None\<rparr>
   \<and> length (history (transitionPhase demoState planning 10 11)) = 2"
proof -
  have a: "phases demoState (phase demoState)
     = Some \<lparr>ps_status = ps_in_progress, ps_startedAt = Some 0, ps_completedAt = None\<rparr>"
    by (simp add: demoState_def initialState_def)
  have b: "phases demoState planning
     = Some \<lparr>ps_status = ps_pending, ps_startedAt = None, ps_completedAt = None\<rparr>"
    by (simp add: demoState_def initialState_def)
  have c: "phase demoState = ideation" "length (history demoState) = 1"
    by (simp_all add: demoState_def initialState_def)
  show ?thesis
    using a b c transitionPhase_effect [OF a b, of 10 11] by simp
qed

section \<open>Progress\<close>



section \<open>Retry and block\<close>

text \<open>
  C3. For a state in which the lookup of the id finds a task, \<^verbatim>\<open>failTask\<close> returns
  that task with the error recorded and its attempts unchanged. With attempts at or above
  maxAttempts the task is blocked and one Blocker with the id, the error and the attempt
  count is appended; with attempts below maxAttempts the task is pending again and no
  Blocker is added. Every CurrentTask pointer of the id is removed and one task_failed
  entry is logged whose willRetry is true exactly when the task became pending. For a task
  below its limit, \<^verbatim>\<open>startTask\<close> followed by \<^verbatim>\<open>failTask\<close> blocks it exactly when the
  incremented attempts equal maxAttempts, and leaves it pending while they are below.
\<close>

theorem failTask_retry_or_block:
  assumes "find (\<lambda>t. t_id t = taskId) (tasks s) = Some t"
  shows "(let result = failTask r s taskId err nowB nowH; s' = snd result
          in (\<exists>t'. fst result = Some t'
                \<and> find (\<lambda>t. t_id t = taskId) (tasks s') = Some t'
                \<and> t_error t' = Some err
                \<and> t_attempts t' = t_attempts t
                \<and> (t_attempts t \<ge> t_maxAttempts t \<longrightarrow>
                      t_status t' = blocked
                      \<and> blockers s' = blockers s @
                          [\<lparr>b_taskId = taskId, b_reason = err, b_since = nowB,
                            b_attempts = t_attempts t\<rparr>])
                \<and> (t_attempts t < t_maxAttempts t \<longrightarrow>
                      t_status t' = pending \<and> blockers s' = blockers s)
                \<and> currentTasks s' = filter (\<lambda>ct. ct_id ct \<noteq> taskId) (currentTasks s)
                \<and> history s' = history s @
                      [\<lparr>h_timestamp = nowH, h_action = ''task_failed'',
                        h_agent = Some (t_agent t), h_taskId = Some taskId,
                        h_details = Some [(''error'', JString err),
                                          (''attempt'', JNumber (t_attempts t)),
                                          (''willRetry'', JBoolean (t_status t' = pending))]\<rparr>]))
       \<and> (t_attempts t < t_maxAttempts t \<longrightarrow>
            (let started = snd (startTask r s taskId now1 nowH1);
                 failed = fst (failTask r started taskId err nowB nowH)
             in map_option t_attempts failed = Some (t_attempts t + 1)
                \<and> (map_option t_status failed = Some blocked
                      \<longleftrightarrow> t_attempts t + 1 = t_maxAttempts t)
                \<and> (map_option t_status failed = Some pending
                      \<longleftrightarrow> t_attempts t + 1 < t_maxAttempts t)))"
proof -
  note hit = failTask_hit [OF assms, of r err nowB nowH] failTask_find [OF assms, of r err nowB nowH]
  have first: "let result = failTask r s taskId err nowB nowH; s' = snd result
          in (\<exists>t'. fst result = Some t'
                \<and> find (\<lambda>t. t_id t = taskId) (tasks s') = Some t'
                \<and> t_error t' = Some err
                \<and> t_attempts t' = t_attempts t
                \<and> (t_attempts t \<ge> t_maxAttempts t \<longrightarrow>
                      t_status t' = blocked
                      \<and> blockers s' = blockers s @
                          [\<lparr>b_taskId = taskId, b_reason = err, b_since = nowB,
                            b_attempts = t_attempts t\<rparr>])
                \<and> (t_attempts t < t_maxAttempts t \<longrightarrow>
                      t_status t' = pending \<and> blockers s' = blockers s)
                \<and> currentTasks s' = filter (\<lambda>ct. ct_id ct \<noteq> taskId) (currentTasks s)
                \<and> history s' = history s @
                      [\<lparr>h_timestamp = nowH, h_action = ''task_failed'',
                        h_agent = Some (t_agent t), h_taskId = Some taskId,
                        h_details = Some [(''error'', JString err),
                                          (''attempt'', JNumber (t_attempts t)),
                                          (''willRetry'', JBoolean (t_status t' = pending))]\<rparr>])"
    unfolding Let_def using hit by simp
  have started: "find (\<lambda>t. t_id t = taskId) (tasks (snd (startTask r s taskId now1 nowH1)))
      = Some (t\<lparr>t_status := in_progress, t_startedAt := Some now1,
                t_attempts := t_attempts t + 1\<rparr>)"
    by (rule startTask_find [OF assms])
  have second: "t_attempts t < t_maxAttempts t \<longrightarrow>
            (let started = snd (startTask r s taskId now1 nowH1);
                 failed = fst (failTask r started taskId err nowB nowH)
             in map_option t_attempts failed = Some (t_attempts t + 1)
                \<and> (map_option t_status failed = Some blocked
                      \<longleftrightarrow> t_attempts t + 1 = t_maxAttempts t)
                \<and> (map_option t_status failed = Some pending
                      \<longleftrightarrow> t_attempts t + 1 < t_maxAttempts t))"
    unfolding Let_def failTask_hit(1) [OF started] by auto
  from first second show ?thesis by blast
qed

theorem failTask_retry_or_block_witness:
  "find (\<lambda>t. t_id t = ''A'') (tasks oneTaskState)
     = Some (newTask ''A'' pending high backend_dev [] [''src/app.ts''])
   \<and> map_option t_status (fst (failTask exactPct oneTaskState ''A'' ''boom'' 3 4)) = Some pending
   \<and> map_option t_error (fst (failTask exactPct oneTaskState ''A'' ''boom'' 3 4)) = Some (Some ''boom'')
   \<and> blockers (snd (failTask exactPct oneTaskState ''A'' ''boom'' 3 4)) = []"
  using failTask_retry_or_block [OF oneTaskState_find, of exactPct "''boom''" 3 4 1 2]
    oneTaskState_find oneTaskState_blockers
  by (auto simp: Let_def newTask_def)

text \<open>
  C4. For a task that the lookup of its id finds, pending with attempts 0 and maxAttempts
  3, in a state without a Blocker of that id: after one and after two
  \<^verbatim>\<open>startTask\<close>/\<^verbatim>\<open>failTask\<close> cycles the task is pending and has no Blocker; after
  the third it is blocked, its attempts are 3, and exactly one Blocker has its id.
\<close>

theorem three_failures_block:
  assumes "find (\<lambda>t. t_id t = taskId) (tasks s) = Some t"
    and "t_status t = pending" and "t_attempts t = 0" and "t_maxAttempts t = 3"
    and "\<forall>b \<in> set (blockers s). b_taskId b \<noteq> taskId"
  shows "(let s1 = runOperations r s [StartTask taskId a1 b1, FailTask taskId e1 c1 d1];
              s2 = runOperations r s1 [StartTask taskId a2 b2, FailTask taskId e2 c2 d2];
              s3 = runOperations r s2 [StartTask taskId a3 b3, FailTask taskId e3 c3 d3];
              theTask = (\<lambda>x. find (\<lambda>t. t_id t = taskId) (tasks x));
              theBlockers = (\<lambda>x. filter (\<lambda>b. b_taskId b = taskId) (blockers x))
          in map_option t_status (theTask s1) = Some pending \<and> theBlockers s1 = []
           \<and> map_option t_status (theTask s2) = Some pending \<and> theBlockers s2 = []
           \<and> map_option t_status (theTask s3) = Some blocked
           \<and> map_option t_attempts (theTask s3) = Some 3
           \<and> length (theBlockers s3) = 1
           \<and> theBlockers s3 = [\<lparr>b_taskId = taskId, b_reason = e3, b_since = c3, b_attempts = 3\<rparr>])"
proof -
  define s1 where "s1 = runOperations r s [StartTask taskId a1 b1, FailTask taskId e1 c1 d1]"
  define s2 where "s2 = runOperations r s1 [StartTask taskId a2 b2, FailTask taskId e2 c2 d2]"
  define s3 where "s3 = runOperations r s2 [StartTask taskId a3 b3, FailTask taskId e3 c3 d3]"
  have none: "filter (\<lambda>b. b_taskId b = taskId) (blockers s) = []"
    using assms(5) by (simp add: filter_empty_conv)
  from cycle_step [OF assms(1), of r a1 b1 e1 c1 d1] assms(3,4)
  obtain t1 where t1: "find (\<lambda>t. t_id t = taskId) (tasks s1) = Some t1"
    "t_attempts t1 = 1" "t_maxAttempts t1 = 3" "t_status t1 = pending"
    "blockers s1 = blockers s"
    unfolding s1_def by auto
  from cycle_step [OF t1(1), of r a2 b2 e2 c2 d2] t1(2,3)
  obtain t2 where t2: "find (\<lambda>t. t_id t = taskId) (tasks s2) = Some t2"
    "t_attempts t2 = 2" "t_maxAttempts t2 = 3" "t_status t2 = pending"
    "blockers s2 = blockers s1"
    unfolding s2_def by auto
  from cycle_step [OF t2(1), of r a3 b3 e3 c3 d3] t2(2,3)
  obtain t3 where t3: "find (\<lambda>t. t_id t = taskId) (tasks s3) = Some t3"
    "t_attempts t3 = 3" "t_status t3 = blocked"
    "blockers s3 = blockers s2 @ [\<lparr>b_taskId = taskId, b_reason = e3, b_since = c3, b_attempts = 3\<rparr>]"
    unfolding s3_def by auto
  show ?thesis
    unfolding Let_def s1_def [symmetric] s2_def [symmetric] s3_def [symmetric]
    using t1 t2 t3 none by simp
qed

theorem three_failures_block_witness:
  "find (\<lambda>t. t_id t = ''A'') (tasks oneTaskState)
     = Some (newTask ''A'' pending high backend_dev [] [''src/app.ts''])
   \<and> map_option t_status (find (\<lambda>t. t_id t = ''A'')
        (tasks (runOperations exactPct oneTaskState
          [StartTask ''A'' 1 2, FailTask ''A'' ''e1'' 3 4,
           StartTask ''A'' 5 6, FailTask ''A'' ''e2'' 7 8,
           StartTask ''A'' 9 10, FailTask ''A'' ''e3'' 11 12]))) = Some blocked
   \<and> map_option t_attempts (find (\<lambda>t. t_id t = ''A'')
        (tasks (runOperations exactPct oneTaskState
          [StartTask ''A'' 1 2, FailTask ''A'' ''e1'' 3 4,
           StartTask ''A'' 5 6, FailTask ''A'' ''e2'' 7 8,
           StartTask ''A'' 9 10, FailTask ''A'' ''e3'' 11 12]))) = Some 3
   \<and> filter (\<lambda>b. b_taskId b = ''A'')
        (blockers (runOperations exactPct oneTaskState
          [StartTask ''A'' 1 2, FailTask ''A'' ''e1'' 3 4,
           StartTask ''A'' 5 6, FailTask ''A'' ''e2'' 7 8,
           StartTask ''A'' 9 10, FailTask ''A'' ''e3'' 11 12]))
       = [\<lparr>b_taskId = ''A'', b_reason = ''e3'', b_since = 11, b_attempts = 3\<rparr>]"
proof -
  have h1: "t_status (newTask ''A'' pending high backend_dev [] [''src/app.ts'']) = pending"
    and h2: "t_attempts (newTask ''A'' pending high backend_dev [] [''src/app.ts'']) = 0"
    and h3: "t_maxAttempts (newTask ''A'' pending high backend_dev [] [''src/app.ts'']) = 3"
    by (simp_all add: newTask_def)
  have h4: "\<forall>b \<in> set (blockers oneTaskState). b_taskId b \<noteq> ''A''"
    by (simp add: oneTaskState_blockers)
  have split: "runOperations exactPct (runOperations exactPct (runOperations exactPct oneTaskState
          [StartTask ''A'' 1 2, FailTask ''A'' ''e1'' 3 4])
          [StartTask ''A'' 5 6, FailTask ''A'' ''e2'' 7 8])
          [StartTask ''A'' 9 10, FailTask ''A'' ''e3'' 11 12]
      = runOperations exactPct oneTaskState
          [StartTask ''A'' 1 2, FailTask ''A'' ''e1'' 3 4,
           StartTask ''A'' 5 6, FailTask ''A'' ''e2'' 7 8,
           StartTask ''A'' 9 10, FailTask ''A'' ''e3'' 11 12]"
    by (simp add: runOperations_def)
  show ?thesis
    using three_failures_block [OF oneTaskState_find h1 h2 h3 h4,
        of exactPct 1 2 "''e1''" 3 4 5 6 "''e2''" 7 8 9 10 "''e3''" 11 12]
      oneTaskState_find
    unfolding Let_def split by simp
qed

section \<open>Next task\<close>



section \<open>Parallel batch\<close>



section \<open>Checkpoint round trip\<close>

text \<open>
  C6. For a state that the schema accepts, restoring the checkpoint that
  \<^verbatim>\<open>createCheckpoint\<close> has just written succeeds, and the restored state has the
  tasks (so the task statuses), the phase and the phase records of the state at capture
  time. The live state differs from the captured one by the new checkpoint and the
  checkpoint_created entry, the restored one by the new checkpoint, the
  checkpoint_restored entry and the update timestamp of the project.
\<close>

theorem checkpoint_round_trip:
  assumes "isUuid (p_id (project s))"
  shows "(let created = createCheckpoint fs s gitCommit description now nowH;
              checkpoint = fst created; live = fst (snd created); fs1 = snd (snd created)
          in \<exists>restored fs2.
               restoreCheckpoint isUuid fs1 (cp_id checkpoint) nowR nowS = Inr (restored, fs2)
             \<and> map t_status (tasks restored) = map t_status (tasks s)
             \<and> tasks restored = tasks s
             \<and> phase restored = phase s
             \<and> phases restored = phases s
             \<and> cp_phase checkpoint = phase s
             \<and> cp_tasksCompleted checkpoint = pr_completed (progress s)
             \<and> tasks live = tasks s \<and> phase live = phase s
             \<and> checkpoints live = checkpoints s @ [checkpoint]
             \<and> checkpoints restored = checkpoints s @ [checkpoint]
             \<and> history live = history s @
                  [\<lparr>h_timestamp = nowH, h_action = ''checkpoint_created'', h_agent = None,
                    h_taskId = None,
                    h_details = Some [(''checkpointId'', JString (cp_id checkpoint)),
                                      (''tasksCompleted'', JNumber (pr_completed (progress s)))]\<rparr>]
             \<and> history restored = history (jsonRoundTrip s) @
                  [\<lparr>h_timestamp = nowR, h_action = ''checkpoint_restored'', h_agent = None,
                    h_taskId = None,
                    h_details = Some [(''checkpointId'', JString (cp_id checkpoint))]\<rparr>]
             \<and> project restored = (project s)\<lparr>p_updated := nowS\<rparr>
             \<and> currentTasks restored = currentTasks s
             \<and> progress restored = progress s
             \<and> blockers restored = blockers s
             \<and> decisions restored = decisions s
             \<and> config restored = config s
             \<and> stateFile fs2 = Some restored)"
  using assms
  by (simp add: createCheckpoint_def restoreCheckpoint_def save_def ProjectStateSchema_parse_def
      jsonRoundTrip_def addHistory_def Let_def)

theorem checkpoint_round_trip_witness:
  "uuidLength (p_id (project oneTaskState))
   \<and> (\<exists>restored fs2.
        restoreCheckpoint uuidLength
          (snd (snd (createCheckpoint emptyFileSystem oneTaskState None None 5 6))) ''CP-001'' 7 8
          = Inr (restored, fs2)
        \<and> map t_status (tasks restored) = [pending]
        \<and> phase restored = ideation
        \<and> length (history restored) = 2)"
proof -
  have t: "map t_status (tasks oneTaskState) = [pending]" "phase oneTaskState = ideation"
    "length (history oneTaskState) = 1"
    by (simp_all add: oneTaskState_def addTasks_def updateProgress_def Let_def demoState_def
        initialState_def newTask_def)
  have h: "length (history (jsonRoundTrip oneTaskState)) = 1"
    using t(3) by (simp add: jsonRoundTrip_def)
  from checkpoint_round_trip [of uuidLength oneTaskState emptyFileSystem None None 5 6 7 8,
      OF oneTaskState_uuid]
  obtain restored fs2 where
    "restoreCheckpoint uuidLength
          (snd (snd (createCheckpoint emptyFileSystem oneTaskState None None 5 6))) ''CP-001'' 7 8
          = Inr (restored, fs2)"
    "map t_status (tasks restored) = map t_status (tasks oneTaskState)"
    "phase restored = phase oneTaskState"
    "history restored = history (jsonRoundTrip oneTaskState) @
                  [\<lparr>h_timestamp = 7, h_action = ''checkpoint_restored'', h_agent = None,
                    h_taskId = None,
                    h_details = Some [(''checkpointId'', JString ''CP-001'')]\<rparr>]"
    unfolding Let_def oneTaskState_cp by blast
  then show ?thesis using t h oneTaskState_uuid by simp
qed

end
